theory Spec2Isabelle
  imports Complex_Main
begin

section \<open>Python and numpy values\<close>

text \<open>
  The exceptions that \<^verbatim>\<open>rasterization.py\<close> and the numpy calls it makes can raise.
  The last three constructors are the names of the specification's error taxonomy; they
  are declared so that statements about them can be written down, and no equation of the
  model produces them, because the source defines and raises no such exception.
\<close>

datatype py_error =
    ValueError | IndexError | AttributeError | OverflowError
  | EmptyInputError | InvalidShapeError | InvalidParameterError

text \<open>
  Sequencing of calls that may raise: the first exception ends the computation.
\<close>

definition and_then :: "py_error + 'a \<Rightarrow> ('a \<Rightarrow> py_error + 'b) \<Rightarrow> py_error + 'b" where
  "and_then x f = (case x of Inl e \<Rightarrow> Inl e | Inr v \<Rightarrow> f v)"

text \<open>
  A double-precision number as numpy and the hardware have it: a finite value, one of the
  two infinities, or not-a-number. A finite value is the real number the double stands
  for; the sign of a zero is not kept. The arithmetic is that of IEEE 754 in its default
  mode: the exact result is rounded to the nearest double, a tie going to the even
  mantissa, and a result whose magnitude is beyond the largest double becomes an
  infinity. numpy's scalar arithmetic raises nothing: a division by zero is a value.
\<close>

datatype pyfloat = Fin real | PInf | NInf | NaN

subsection \<open>Rounding to the nearest representable number\<close>

definition pow2 :: "int \<Rightarrow> real" where
  "pow2 n = (if 0 \<le> n then 2 ^ nat n else 1 / 2 ^ nat (- n))"

text \<open>
  The binary exponent of a positive number, \<open>\<lfloor>log\<^sub>2 x\<rfloor>\<close>, found by trying the powers
  \<open>2\<^sup>1\<^sup>0\<^sup>2\<^sup>4, 2\<^sup>5\<^sup>1\<^sup>2, \<dots>, 2\<close> in turn: \<open>log2_up\<close> for a number of at least one,
  \<open>log2_down\<close>, which counts how often a number below one can be doubled and stay
  below one, for the others.
\<close>

definition binades :: "nat list" where
  "binades = [1024, 512, 256, 128, 64, 32, 16, 8, 4, 2, 1]"

fun log2_up :: "nat list \<Rightarrow> real \<Rightarrow> int" where
  "log2_up [] x = 0"
| "log2_up (k # ks) x =
     (if 2 ^ k \<le> x then int k + log2_up ks (x / 2 ^ k) else log2_up ks x)"

fun log2_down :: "nat list \<Rightarrow> real \<Rightarrow> int" where
  "log2_down [] x = 0"
| "log2_down (k # ks) x =
     (if x * 2 ^ k < 1 then int k + log2_down ks (x * 2 ^ k) else log2_down ks x)"

definition floor_log2 :: "real \<Rightarrow> int" where
  "floor_log2 x = (if 1 \<le> x then log2_up binades x else - log2_down binades x - 1)"

definition round_half_even :: "real \<Rightarrow> int" where
  "round_half_even q =
     (let f = \<lfloor>q\<rfloor>; d = q - of_int f
      in if d < 1 / 2 then f else if 1 / 2 < d then f + 1 else if even f then f else f + 1)"

text \<open>
  Rounding to a binary format with \<open>p\<close> bits of mantissa and exponents from \<open>emin\<close> to
  \<open>emax\<close>: the spacing of the representable numbers around \<open>x\<close> is
  \<open>2\<^bsup>e - p + 1\<^esup>\<close>, where \<open>e\<close> is the exponent of \<open>x\<close>, or \<open>emin\<close> for the subnormal
  numbers below \<open>2\<^bsup>emin\<^esup>\<close>.
\<close>

definition round_nearest :: "nat \<Rightarrow> int \<Rightarrow> int \<Rightarrow> real \<Rightarrow> pyfloat" where
  "round_nearest p emin emax x =
     (if x = 0 then Fin 0
      else let e = max emin (floor_log2 \<bar>x\<bar>);
               ulp = pow2 (e - int p + 1);
               r = of_int (round_half_even (\<bar>x\<bar> / ulp)) * ulp
           in if pow2 (emax + 1) \<le> r then (if 0 < x then PInf else NInf)
              else Fin (if 0 < x then r else - r))"

text \<open>Double precision (float64, C \<^verbatim>\<open>double\<close>) and single precision (float32, C \<^verbatim>\<open>float\<close>).\<close>

definition round64 :: "real \<Rightarrow> pyfloat" where
  "round64 = round_nearest 53 (- 1022) 1023"

definition round32 :: "real \<Rightarrow> pyfloat" where
  "round32 = round_nearest 24 (- 126) 127"

subsection \<open>Arithmetic\<close>

fun fneg :: "pyfloat \<Rightarrow> pyfloat" where
  "fneg (Fin a) = Fin (- a)"
| "fneg PInf = NInf"
| "fneg NInf = PInf"
| "fneg NaN = NaN"

fun fadd :: "pyfloat \<Rightarrow> pyfloat \<Rightarrow> pyfloat" where
  "fadd NaN _ = NaN"
| "fadd _ NaN = NaN"
| "fadd (Fin a) (Fin b) = round64 (a + b)"
| "fadd PInf NInf = NaN"
| "fadd NInf PInf = NaN"
| "fadd PInf _ = PInf"
| "fadd NInf _ = NInf"
| "fadd (Fin a) b = b"

definition fsub :: "pyfloat \<Rightarrow> pyfloat \<Rightarrow> pyfloat" where
  "fsub a b = fadd a (fneg b)"

fun fmul :: "pyfloat \<Rightarrow> pyfloat \<Rightarrow> pyfloat" where
  "fmul NaN _ = NaN"
| "fmul _ NaN = NaN"
| "fmul (Fin a) (Fin b) = round64 (a * b)"
| "fmul PInf PInf = PInf"
| "fmul PInf NInf = NInf"
| "fmul NInf PInf = NInf"
| "fmul NInf NInf = PInf"
| "fmul PInf (Fin b) = (if b = 0 then NaN else if 0 < b then PInf else NInf)"
| "fmul NInf (Fin b) = (if b = 0 then NaN else if 0 < b then NInf else PInf)"
| "fmul (Fin a) PInf = (if a = 0 then NaN else if 0 < a then PInf else NInf)"
| "fmul (Fin a) NInf = (if a = 0 then NaN else if 0 < a then NInf else PInf)"

fun fdiv :: "pyfloat \<Rightarrow> pyfloat \<Rightarrow> pyfloat" where
  "fdiv NaN _ = NaN"
| "fdiv _ NaN = NaN"
| "fdiv (Fin a) (Fin b) =
     (if b \<noteq> 0 then round64 (a / b)
      else if a = 0 then NaN else if 0 < a then PInf else NInf)"
| "fdiv (Fin a) _ = Fin 0"
| "fdiv PInf (Fin b) = (if 0 \<le> b then PInf else NInf)"
| "fdiv NInf (Fin b) = (if 0 \<le> b then NInf else PInf)"
| "fdiv _ _ = NaN"

text \<open>
  \<^verbatim>\<open>np.floor\<close> and \<^verbatim>\<open>np.ceil\<close>: the floor and the ceiling of a double are doubles, so
  nothing is rounded.
\<close>

fun ffloor :: "pyfloat \<Rightarrow> pyfloat" where
  "ffloor (Fin a) = Fin (of_int \<lfloor>a\<rfloor>)"
| "ffloor x = x"

fun fceil :: "pyfloat \<Rightarrow> pyfloat" where
  "fceil (Fin a) = Fin (of_int \<lceil>a\<rceil>)"
| "fceil x = x"

text \<open>\<^verbatim>\<open>np.minimum\<close> and \<^verbatim>\<open>np.maximum\<close>: a not-a-number operand is the result.\<close>

fun fminimum :: "pyfloat \<Rightarrow> pyfloat \<Rightarrow> pyfloat" where
  "fminimum NaN _ = NaN"
| "fminimum _ NaN = NaN"
| "fminimum NInf _ = NInf"
| "fminimum _ NInf = NInf"
| "fminimum PInf b = b"
| "fminimum a PInf = a"
| "fminimum (Fin a) (Fin b) = Fin (min a b)"

fun fmaximum :: "pyfloat \<Rightarrow> pyfloat \<Rightarrow> pyfloat" where
  "fmaximum NaN _ = NaN"
| "fmaximum _ NaN = NaN"
| "fmaximum PInf _ = PInf"
| "fmaximum _ PInf = PInf"
| "fmaximum NInf b = b"
| "fmaximum a NInf = a"
| "fmaximum (Fin a) (Fin b) = Fin (max a b)"

text \<open>
  Python's \<^verbatim>\<open>int(x)\<close> on a float: truncation towards zero, \<^verbatim>\<open>ValueError\<close> on
  not-a-number and \<^verbatim>\<open>OverflowError\<close> on an infinity.
\<close>

fun py_int :: "pyfloat \<Rightarrow> py_error + int" where
  "py_int (Fin a) = Inr (if 0 \<le> a then \<lfloor>a\<rfloor> else \<lceil>a\<rceil>)"
| "py_int NaN = Inl ValueError"
| "py_int _ = Inl OverflowError"

subsection \<open>Arrays\<close>

text \<open>
  A numpy array: its element type, its shape and its elements in row-major (C) order.
\<close>

datatype dtype = Float32 | Float64

record ndarray =
  dtype :: dtype
  shape :: "nat list"
  data :: "pyfloat list"

text \<open>
  \<^verbatim>\<open>np.zeros(shape, dtype)\<close>. numpy raises \<^verbatim>\<open>ValueError\<close> for a dimension beyond
  the largest index of the platform (\<open>2\<^sup>6\<^sup>3 - 1\<close>, a 64-bit platform is assumed), for a
  negative dimension, and for an array whose size in bytes, the dimensions of zero left
  out, is beyond that bound. An array within these limits is allocated: the exhaustion
  of the machine's memory (\<^verbatim>\<open>MemoryError\<close>), which depends on the machine and not on
  the program, is not modelled, here or at any other allocation.
\<close>

definition intp_max :: int where
  "intp_max = 2 ^ 63 - 1"

fun itemsize :: "dtype \<Rightarrow> int" where
  "itemsize Float32 = 4"
| "itemsize Float64 = 8"

definition np_zeros :: "int list \<Rightarrow> dtype \<Rightarrow> py_error + ndarray" where
  "np_zeros dims t =
     (if list_ex (\<lambda>d. intp_max < d) dims then Inl ValueError
      else if list_ex (\<lambda>d. d < 0) dims then Inl ValueError
      else if intp_max < itemsize t * prod_list (filter (\<lambda>d. d \<noteq> 0) dims) then Inl ValueError
      else Inr \<lparr>dtype = t, shape = map nat dims,
                data = replicate (prod_list (map nat dims)) (Fin 0)\<rparr>)"

text \<open>
  \<^verbatim>\<open>a.astype(t)\<close> returns a new array. The source only converts to float64, which
  keeps every value.
\<close>

definition astype :: "ndarray \<Rightarrow> dtype \<Rightarrow> ndarray" where
  "astype a t = a\<lparr>dtype := t\<rparr>"

text \<open>
  \<^verbatim>\<open>a.reshape(dims)\<close>. numpy takes a negative entry as the one dimension to infer; two
  of them, or a total size that does not fit, raise \<^verbatim>\<open>ValueError\<close>.
\<close>

definition reshape :: "ndarray \<Rightarrow> int list \<Rightarrow> py_error + ndarray" where
  "reshape a dims =
     (let total = prod_list (shape a);
          unknown = length (filter (\<lambda>d. d < 0) dims);
          known = prod_list (map nat (filter (\<lambda>d. 0 \<le> d) dims))
      in if 1 < unknown then Inl ValueError
         else if unknown = 1 then
           (if known = 0 then Inl ValueError
            else if total mod known = 0
            then Inr (a\<lparr>shape := map (\<lambda>d. if d < 0 then total div known else nat d) dims\<rparr>)
            else Inl ValueError)
         else if known \<noteq> total then Inl ValueError
         else Inr (a\<lparr>shape := map nat dims\<rparr>))"

text \<open>
  \<^verbatim>\<open>raster.dstack((raster, raster_std))\<close>, line 83 of the source. Stacking along the
  third axis is the module-level function \<^verbatim>\<open>numpy.dstack\<close>; an array object has no
  attribute of that name, so looking it up raises \<^verbatim>\<open>AttributeError\<close> before
  anything is stacked, whatever the two arrays are.
\<close>

definition ndarray_dstack :: "ndarray \<Rightarrow> ndarray \<times> ndarray \<Rightarrow> py_error + ndarray" where
  "ndarray_dstack self arrs = Inl AttributeError"

text \<open>
  \<^verbatim>\<open>np.concatenate(arrs)\<close> along the first axis: the list must not be empty, no array
  may be zero-dimensional and all must agree on every other axis.
\<close>

definition np_concatenate :: "ndarray list \<Rightarrow> py_error + ndarray" where
  "np_concatenate arrs =
     (case arrs of
        [] \<Rightarrow> Inl ValueError
      | a # rest \<Rightarrow>
          if list_all (\<lambda>b. shape b \<noteq> [] \<and> tl (shape b) = tl (shape a)) arrs
          then Inr \<lparr>dtype = (if list_all (\<lambda>b. dtype b = Float32) arrs then Float32 else Float64),
                    shape = sum_list (map (\<lambda>b. hd (shape b)) arrs) # tl (shape a),
                    data = concat (map data arrs)\<rparr>
          else Inl ValueError)"

text \<open>The first \<open>n\<close> consecutive blocks of \<open>w\<close> elements of a buffer.\<close>

fun blocks :: "nat \<Rightarrow> nat \<Rightarrow> 'a list \<Rightarrow> 'a list list" where
  "blocks 0 w xs = []"
| "blocks (Suc n) w xs = take w xs # blocks n w (drop w xs)"

text \<open>
  \<^verbatim>\<open>a[:, j]\<close>: the elements with index \<open>j\<close> on the second axis, in order. An array
  with fewer than two axes, or a second axis of at most \<open>j\<close> entries, raises
  \<^verbatim>\<open>IndexError\<close>.
\<close>

definition column :: "ndarray \<Rightarrow> nat \<Rightarrow> py_error + pyfloat list" where
  "column a j =
     (case shape a of
        n # c # rest \<Rightarrow>
          if c \<le> j then Inl IndexError
          else let r = prod_list rest
               in Inr (concat (map (\<lambda>row. take r (drop (j * r) row)) (blocks n (c * r) (data a))))
      | _ \<Rightarrow> Inl IndexError)"

text \<open>
  \<^verbatim>\<open>np.amin\<close> and \<^verbatim>\<open>np.amax\<close> over all elements: a reduction of an array without
  elements raises \<^verbatim>\<open>ValueError\<close>.
\<close>

definition np_amin :: "pyfloat list \<Rightarrow> py_error + pyfloat" where
  "np_amin xs = (case xs of [] \<Rightarrow> Inl ValueError | x # rest \<Rightarrow> Inr (fold (\<lambda>y acc. fminimum acc y) rest x))"

definition np_amax :: "pyfloat list \<Rightarrow> py_error + pyfloat" where
  "np_amax xs = (case xs of [] \<Rightarrow> Inl ValueError | x # rest \<Rightarrow> Inr (fold (\<lambda>y acc. fmaximum acc y) rest x))"

section \<open>The store of array buffers\<close>

text \<open>
  Arrays are objects: the caller's point cloud and the buffers that \<^verbatim>\<open>plyflatten\<close>
  allocates live in a store, and a variable holds the position of its array there. A new
  array is put at the end, so it never shares a position with an older one.
\<close>

type_synonym heap = "ndarray list"

definition alloc :: "heap \<Rightarrow> ndarray \<Rightarrow> nat \<times> heap" where
  "alloc h a = (length h, h @ [a])"

text \<open>
  What a routine that is handed a buffer of fixed size can do to it: the elements it
  writes replace the old ones, it cannot write behind the end, and what it does not
  write stays.
\<close>

definition store_into :: "'a list \<Rightarrow> 'a list \<Rightarrow> 'a list" where
  "store_into old new = take (length old) new @ drop (length new) old"

text \<open>
  The native routine \<^verbatim>\<open>rasterize_cloud\<close> of \<^verbatim>\<open>libplyflatten.so\<close> is reached through
  ctypes and is no part of \<^verbatim>\<open>rasterization.py\<close>, so the model takes it as a parameter:
  any function from the contents of the three buffers it is handed (the point table, the
  raster, the standard-deviation raster) and the nine scalars to the contents it leaves
  in the three buffers. A ctypes call returns no Python exception of the callee.
\<close>

type_synonym rasterize_cloud =
  "pyfloat list \<Rightarrow> pyfloat list \<Rightarrow> pyfloat list \<Rightarrow> int \<Rightarrow> int \<Rightarrow> pyfloat \<Rightarrow> pyfloat \<Rightarrow> pyfloat
     \<Rightarrow> int \<Rightarrow> int \<Rightarrow> int \<Rightarrow> pyfloat \<Rightarrow> pyfloat list \<times> pyfloat list \<times> pyfloat list"

text \<open>
  The conversions of the declared \<^verbatim>\<open>argtypes\<close> (lines 50 to 58). ctypes checks no
  overflow: a Python integer is reduced to the 32 bits of a C \<^verbatim>\<open>int\<close>, read as a signed
  number; a float is narrowed to the nearest C \<^verbatim>\<open>float\<close>; a C \<^verbatim>\<open>double\<close> is the Python
  float itself.
\<close>

definition c_int :: "int \<Rightarrow> int" where
  "c_int n = (n + 2 ^ 31) mod 2 ^ 32 - 2 ^ 31"

definition c_double :: "pyfloat \<Rightarrow> pyfloat" where
  "c_double x = x"

fun c_float :: "pyfloat \<Rightarrow> pyfloat" where
  "c_float (Fin a) = round32 a"
| "c_float x = x"

definition write_buffer :: "heap \<Rightarrow> nat \<Rightarrow> pyfloat list \<Rightarrow> heap" where
  "write_buffer h p new = h[p := (h ! p)\<lparr>data := store_into (data (h ! p)) new\<rparr>]"

text \<open>Lines 64 to 77: the call, with the arguments converted as declared.\<close>

definition lib_rasterize_cloud ::
  "rasterize_cloud \<Rightarrow> heap \<Rightarrow> nat \<Rightarrow> nat \<Rightarrow> nat \<Rightarrow> int \<Rightarrow> int \<Rightarrow> pyfloat \<Rightarrow> pyfloat \<Rightarrow> pyfloat
     \<Rightarrow> int \<Rightarrow> int \<Rightarrow> int \<Rightarrow> pyfloat \<Rightarrow> heap" where
  "lib_rasterize_cloud lib h cloud raster raster_std nb_points nb_extra_columns
       xoff yoff resolution xsize ysize radius sigma =
     (case lib (data (h ! cloud)) (data (h ! raster)) (data (h ! raster_std))
                (c_int nb_points) (c_int nb_extra_columns)
                (c_double xoff) (c_double yoff) (c_double resolution)
                (c_int xsize) (c_int ysize) (c_int radius) (c_float sigma) of
        (c', r', s') \<Rightarrow>
          write_buffer (write_buffer (write_buffer h cloud c') raster r') raster_std s')"

section \<open>The cloud rasterizer: \<^verbatim>\<open>plyflatten\<close>\<close>

text \<open>
  Lines 19 to 85 of \<^verbatim>\<open>rasterization.py\<close>. \<open>cloud\<close> is the position of the caller's
  array in the store \<open>h\<close>; the result is the raised exception or the returned array,
  together with the store the call leaves behind.
  \<^item> \<^verbatim>\<open>cloud.shape[1]\<close> raises \<^verbatim>\<open>IndexError\<close> on an array with fewer than two axes;
  \<^item> the two rasters are allocated by \<^verbatim>\<open>np.zeros\<close> with shape
    \<^verbatim>\<open>(xsize * ysize, nb_extra_columns)\<close>;
  \<^item> the native routine gets \<^verbatim>\<open>np.ascontiguousarray(cloud.astype(np.float64))\<close>, a new
    array, and the two rasters;
  \<^item> the raster is reshaped, and with \<^verbatim>\<open>std\<close> the second one too, before line 83.
\<close>

definition plyflatten ::
  "rasterize_cloud \<Rightarrow> heap \<Rightarrow> nat \<Rightarrow> pyfloat \<Rightarrow> pyfloat \<Rightarrow> pyfloat \<Rightarrow> int \<Rightarrow> int \<Rightarrow> int
     \<Rightarrow> pyfloat \<Rightarrow> bool \<Rightarrow> (py_error + ndarray) \<times> heap" where
  "plyflatten lib h cloud xoff yoff resolution xsize ysize radius sigma std =
     (if length (shape (h ! cloud)) < 2 then (Inl IndexError, h)
      else
        let nb_points = int (shape (h ! cloud) ! 0);
            nb_extra_columns = int (shape (h ! cloud) ! 1) - 2;
            raster_shape = [xsize * ysize, nb_extra_columns]
        in (case np_zeros raster_shape Float32 of
              Inl e \<Rightarrow> (Inl e, h)
            | Inr zeros \<Rightarrow>
               (let raster = fst (alloc h zeros);
                    h1 = snd (alloc h zeros);
                    raster_std = fst (alloc h1 zeros);
                    h2 = snd (alloc h1 zeros);
                    arg = fst (alloc h2 (astype (h ! cloud) Float64));
                    h3 = snd (alloc h2 (astype (h ! cloud) Float64));
                    h4 = lib_rasterize_cloud lib h3 arg raster raster_std nb_points
                           nb_extra_columns xoff yoff resolution xsize ysize radius sigma
                in (case reshape (h4 ! raster) [ysize, xsize, nb_extra_columns] of
                      Inl e \<Rightarrow> (Inl e, h4)
                    | Inr r \<Rightarrow>
                       (if std then
                          (case reshape (h4 ! raster_std) [ysize, xsize, nb_extra_columns] of
                             Inl e \<Rightarrow> (Inl e, h4)
                           | Inr rs \<Rightarrow> (ndarray_dstack r (r, rs), h4))
                        else (Inr r, h4))))))"

section \<open>The extrema calculator and \<^verbatim>\<open>plyflatten_from_plyfiles_list\<close>\<close>

text \<open>
  Lines 112 to 127: the region of interest is the caller's, or is derived from the
  extrema of the first two columns.
\<close>

type_synonym roi = "pyfloat \<times> pyfloat \<times> int \<times> int"

definition region_of_interest :: "ndarray \<Rightarrow> pyfloat \<Rightarrow> roi option \<Rightarrow> py_error + roi" where
  "region_of_interest full_cloud resolution roi =
     (case roi of
        Some (xoff, yoff, xsize, ysize) \<Rightarrow> Inr (xoff, yoff, xsize, ysize)
      | None \<Rightarrow>
          and_then (column full_cloud 0) (\<lambda>xx.
          and_then (column full_cloud 1) (\<lambda>yy.
          and_then (np_amin xx) (\<lambda>xmin.
          and_then (np_amax xx) (\<lambda>xmax.
          and_then (np_amin yy) (\<lambda>ymin.
          and_then (np_amax yy) (\<lambda>ymax.
          let xoff = fmul (ffloor (fdiv xmin resolution)) resolution in
          and_then (py_int (fadd (Fin 1) (ffloor (fdiv (fsub xmax xoff) resolution)))) (\<lambda>xsize.
          let yoff = fmul (fceil (fdiv ymax resolution)) resolution in
          and_then (py_int (fsub (Fin 1) (ffloor (fdiv (fsub ymin yoff) resolution)))) (\<lambda>ysize.
          Inr (xoff, yoff, xsize, ysize))))))))))"

text \<open>
  The module \<^verbatim>\<open>plyflatten.utils\<close> (reading a PLY file, finding its coordinate reference
  system) is no part of \<^verbatim>\<open>rasterization.py\<close>: its four functions are parameters, each
  free to raise.
\<close>

record ('f, 'c, 'p, 'r) utils =
  read_3d_point_cloud_from_ply :: "'f \<Rightarrow> py_error + ndarray"
  crs_from_ply :: "'f \<Rightarrow> py_error + 'c"
  crs_proj :: "'c \<Rightarrow> py_error + 'p"
  rasterio_crs :: "'p \<Rightarrow> py_error + 'r"

datatype affine = Affine pyfloat pyfloat pyfloat pyfloat pyfloat pyfloat

record 'r profile =
  tiled :: bool
  compress :: string
  predictor :: int
  nodata :: pyfloat
  crs :: 'r
  transform :: affine

text \<open>Lines 105 to 108: every file is read and its table converted to float64.\<close>

fun read_clouds :: "('f, 'c, 'p, 'r) utils \<Rightarrow> 'f list \<Rightarrow> py_error + ndarray list" where
  "read_clouds u [] = Inr []"
| "read_clouds u (cloud # clouds_list) =
     and_then (read_3d_point_cloud_from_ply u cloud) (\<lambda>cloud_data.
     and_then (read_clouds u clouds_list) (\<lambda>full_cloud.
     Inr (astype cloud_data Float64 # full_cloud)))"

text \<open>\<^verbatim>\<open>clouds_list[0]\<close>.\<close>

definition first_item :: "'a list \<Rightarrow> py_error + 'a" where
  "first_item xs = (case xs of [] \<Rightarrow> Inl IndexError | x # _ \<Rightarrow> Inr x)"

text \<open>
  Lines 88 to 146. The concatenated cloud is a new array that only this call holds, so
  \<^verbatim>\<open>plyflatten\<close> runs on a store that contains nothing else. A missing \<^verbatim>\<open>sigma\<close>
  becomes infinity.
\<close>

definition plyflatten_from_plyfiles_list ::
  "('f, 'c, 'p, 'r) utils \<Rightarrow> rasterize_cloud \<Rightarrow> 'f list \<Rightarrow> pyfloat \<Rightarrow> int \<Rightarrow> roi option
     \<Rightarrow> pyfloat option \<Rightarrow> bool \<Rightarrow> py_error + ndarray \<times> 'r profile" where
  "plyflatten_from_plyfiles_list u lib clouds_list resolution radius roi sigma std =
     and_then (read_clouds u clouds_list) (\<lambda>clouds.
     and_then (np_concatenate clouds) (\<lambda>full_cloud.
     and_then (region_of_interest full_cloud resolution roi) (\<lambda>(xoff, yoff, xsize, ysize).
     let sigma' = (case sigma of None \<Rightarrow> PInf | Some s \<Rightarrow> s) in
     and_then (fst (plyflatten lib [full_cloud] 0 xoff yoff resolution xsize ysize
                      radius sigma' std)) (\<lambda>raster.
     and_then (first_item clouds_list) (\<lambda>first.
     and_then (crs_from_ply u first) (\<lambda>crs_and_type.
     and_then (crs_proj u crs_and_type) (\<lambda>proj.
     and_then (rasterio_crs u proj) (\<lambda>crs_proj'.
     Inr (raster,
          \<lparr>tiled = True, compress = ''deflate'', predictor = 2, nodata = NaN,
           crs = crs_proj',
           transform = Affine resolution (Fin 0) xoff (Fin 0) (fneg resolution) yoff\<rparr>)))))))))"

section \<open>Vocabulary of the statements\<close>

text \<open>
  The double nearest to a real number, as a decimal literal of Python denotes it (zero
  when there is none), and the real numbers that are doubles.
\<close>

definition double :: "real \<Rightarrow> real" where
  "double x = (case round64 x of Fin r \<Rightarrow> r | _ \<Rightarrow> 0)"

definition is_double :: "real \<Rightarrow> bool" where
  "is_double x = (round64 x = Fin x)"

text \<open>
  A point table with \<open>c\<close> columns whose entries are all finite: one row per point, the
  first two entries of a row being the coordinates \<open>x\<close> and \<open>y\<close>.
\<close>

definition point_table :: "nat \<Rightarrow> real list list \<Rightarrow> ndarray" where
  "point_table c rows =
     \<lparr>dtype = Float64, shape = [length rows, c], data = map Fin (concat rows)\<rparr>"







text \<open>
  Modelled from the spec: the cell a point is assigned to. The assignment is made inside
  the native routine, which is not among the sources; sections 4.2 and 8 of the
  specification give it as the floor division of the offset coordinates by the
  resolution, the column counted rightwards from \<open>xoff\<close> and the row downwards from
  \<open>yoff\<close>. The result is the pair (column, row), computed on doubles.
\<close>

definition cell_of :: "pyfloat \<Rightarrow> pyfloat \<Rightarrow> pyfloat \<Rightarrow> real list \<Rightarrow> pyfloat \<times> pyfloat" where
  "cell_of xoff yoff resolution point =
     (ffloor (fdiv (fsub (Fin (point ! 0)) xoff) resolution),
      ffloor (fdiv (fsub yoff (Fin (point ! 1))) resolution))"

fun in_grid :: "int \<Rightarrow> int \<Rightarrow> pyfloat \<times> pyfloat \<Rightarrow> bool" where
  "in_grid xsize ysize (Fin col, Fin row) =
     (0 \<le> col \<and> col < of_int xsize \<and> 0 \<le> row \<and> row < of_int ysize)"
| "in_grid xsize ysize _ = False"

text \<open>A table without points: two axes, no row, at least the two coordinate columns.\<close>

definition no_points :: "ndarray \<Rightarrow> bool" where
  "no_points a = (case shape a of [n, c] \<Rightarrow> n = 0 \<and> 2 \<le> c | _ \<Rightarrow> False)"

subsection \<open>Inputs of the examples\<close>

text \<open>The cloud of the specification's first scenario: one point with one attribute.\<close>

definition single_point :: ndarray where
  "single_point = point_table 3 [[1/2, 1/2, 10]]"

text \<open>
  A native routine for the examples. It overwrites all it is given: the point table
  with not-a-number, the raster with ones, the second raster with twos.
\<close>

definition overwriting_routine :: rasterize_cloud where
  "overwriting_routine c r s nb_points nb_extra_columns xoff yoff resolution xsize ysize
       radius sigma =
     (map (\<lambda>_. NaN) c, map (\<lambda>_. Fin 1) r, map (\<lambda>_. Fin 2) s)"


text \<open>
  Utilities for the examples: a file is given by the table it holds, and the lookups of
  the coordinate reference system succeed.
\<close>

definition table_files :: "(ndarray, unit, unit, unit) utils" where
  "table_files =
     \<lparr>read_3d_point_cloud_from_ply = Inr, crs_from_ply = (\<lambda>_. Inr ()),
      crs_proj = (\<lambda>_. Inr ()), rasterio_crs = (\<lambda>_. Inr ())\<rparr>"

section \<open>Auxiliary facts\<close>

lemma and_then_Inr [simp]: "and_then (Inr v) f = f v"
  by (simp add: and_then_def)

lemma and_then_Inl [simp]: "and_then (Inl e) f = Inl e"
  by (simp add: and_then_def)

text \<open>The equations that evaluate a rounding of a given number.\<close>

lemmas rounding = round64_def round32_def round_nearest_def floor_log2_def binades_def
  pow2_def round_half_even_def double_def is_double_def Let_def

subsection \<open>Buffers and the native call\<close>

lemma write_buffer_length [simp]: "length (write_buffer h p new) = length h"
  by (simp add: write_buffer_def)

lemma write_buffer_shape [simp]: "shape (write_buffer h p new ! q) = shape (h ! q)"
  by (cases "p < length h") (simp_all add: write_buffer_def nth_list_update list_update_beyond)

lemma write_buffer_dtype [simp]: "dtype (write_buffer h p new ! q) = dtype (h ! q)"
  by (cases "p < length h") (simp_all add: write_buffer_def nth_list_update list_update_beyond)

lemma write_buffer_other: "q \<noteq> p \<Longrightarrow> write_buffer h p new ! q = h ! q"
  by (simp add: write_buffer_def)

lemma lib_rasterize_cloud_length [simp]:
  "length (lib_rasterize_cloud lib h c r s n k xoff yoff res xs ys rad sig) = length h"
  by (simp add: lib_rasterize_cloud_def split: prod.splits)

lemma lib_rasterize_cloud_shape [simp]:
  "shape (lib_rasterize_cloud lib h c r s n k xoff yoff res xs ys rad sig ! q) = shape (h ! q)"
  by (simp add: lib_rasterize_cloud_def split: prod.splits)

lemma lib_rasterize_cloud_dtype [simp]:
  "dtype (lib_rasterize_cloud lib h c r s n k xoff yoff res xs ys rad sig ! q) = dtype (h ! q)"
  by (simp add: lib_rasterize_cloud_def split: prod.splits)

lemma lib_rasterize_cloud_other:
  "q \<noteq> c \<Longrightarrow> q \<noteq> r \<Longrightarrow> q \<noteq> s \<Longrightarrow>
   lib_rasterize_cloud lib h c r s n k xoff yoff res xs ys rad sig ! q = h ! q"
  by (simp add: lib_rasterize_cloud_def write_buffer_other split: prod.splits)

lemma reshape_dtype: "reshape a dims = Inr r \<Longrightarrow> dtype r = dtype a"
  by (auto simp: reshape_def Let_def split: if_splits)


subsection \<open>The rasterizer\<close>

lemma plyflatten_frame:
  assumes "q < length h"
  shows "snd (plyflatten lib h cloud xoff yoff resolution xsize ysize radius sigma std) ! q = h ! q"
proof (cases "length (shape (h ! cloud)) < 2")
  case True
  then show ?thesis by (simp add: plyflatten_def)
next
  case False
  show ?thesis
  proof (cases "np_zeros [xsize * ysize, int (shape (h ! cloud) ! 1) - 2] Float32")
    case (Inl e)
    with False show ?thesis by (simp add: plyflatten_def Let_def)
  next
    case (Inr zeros)
    have "lib_rasterize_cloud lib (h @ [zeros, zeros, astype (h ! cloud) Float64])
            (Suc (Suc (length h))) (length h) (Suc (length h)) n k
            xoff yoff resolution xsize ysize radius sigma ! q = h ! q" for n k
      using assms by (simp add: lib_rasterize_cloud_other nth_append)
    with False Inr show ?thesis
      by (simp add: plyflatten_def Let_def alloc_def split: sum.splits)
  qed
qed


lemma single_point_raster:
  "fst (plyflatten overwriting_routine [single_point] 0 (Fin 0) (Fin 1) (Fin 1) 1 1 0 PInf False)
     = Inr \<lparr>dtype = Float32, shape = [1, 1, 1], data = [Fin 1]\<rparr>"
  by (simp add: plyflatten_def single_point_def point_table_def np_zeros_def intp_max_def
        alloc_def astype_def Let_def reshape_def nth_append lib_rasterize_cloud_def
        write_buffer_def store_into_def overwriting_routine_def)

subsection \<open>Columns and extrema of a point table\<close>










subsection \<open>A coordinate that the offset overtakes\<close>

text \<open>
  The cloud \<^verbatim>\<open>[[1.7, 0.0, 10.0]]\<close> at the resolution \<^verbatim>\<open>0.1\<close>. The quotient of the two
  doubles lies below 17 and is rounded to 17, and 17 times the resolution is rounded
  upwards, to the double next above that of 1.7: the offset is to the right of the
  point, and \<open>xsize\<close> is zero.
\<close>

lemma tenth: "double (1 / 10) = 3602879701896397 / 36028797018963968"
  by (simp add: rounding)

lemma seventeen_tenths: "double (17 / 10) = 7656119366529843 / 4503599627370496"
  by (simp add: rounding)

lemma overtaken_roi:
  "region_of_interest (point_table 3 [[double (17 / 10), 0, 10]]) (Fin (double (1 / 10))) None
     = Inr (Fin (7656119366529844 / 4503599627370496), Fin 0, 0, 1)"
  unfolding tenth seventeen_tenths
  by (simp add: region_of_interest_def column_def point_table_def np_amin_def np_amax_def
        fsub_def rounding)

subsection \<open>Clouds without points\<close>

lemma no_points_shape: "no_points a \<Longrightarrow> \<exists>c. shape a = [0, c] \<and> 2 \<le> c"
  by (auto simp: no_points_def split: list.splits)

lemma no_points_astype [simp]: "no_points (astype a t) = no_points a"
  by (simp add: no_points_def astype_def)

lemma read_clouds_no_points:
  assumes "list_all (\<lambda>f. case read_3d_point_cloud_from_ply u f of
                            Inl e \<Rightarrow> False | Inr a \<Rightarrow> no_points a) clouds_list"
  shows "\<exists>clouds. read_clouds u clouds_list = Inr clouds \<and> list_all no_points clouds"
  using assms
proof (induction clouds_list)
  case Nil
  then show ?case by simp
next
  case (Cons f fs)
  then obtain a clouds where "read_3d_point_cloud_from_ply u f = Inr a" "no_points a"
    "read_clouds u fs = Inr clouds" "list_all no_points clouds"
    by (auto split: sum.splits)
  then show ?case
    by simp
qed

lemma np_concatenate_no_points:
  assumes "list_all no_points clouds" and "np_concatenate clouds = Inr full_cloud"
  shows "no_points full_cloud"
proof (cases clouds)
  case Nil
  with assms(2) show ?thesis by (simp add: np_concatenate_def)
next
  case (Cons a rest)
  have zero: "sum_list (map (\<lambda>b. hd (shape b)) clouds) = 0"
    using assms(1) by (induction clouds) (auto dest: no_points_shape)
  obtain c where c: "shape a = [0, c]" "2 \<le> c"
    using assms(1) Cons no_points_shape by auto
  have "shape full_cloud = [0, c]"
    using assms(2) zero c unfolding Cons [symmetric]
    by (auto simp: np_concatenate_def Cons split: if_splits)
  then show ?thesis
    using c by (simp add: no_points_def)
qed

lemma region_of_interest_no_points:
  assumes "no_points full_cloud"
  shows "region_of_interest full_cloud resolution None = Inl ValueError"
proof -
  obtain c where "shape full_cloud = [0, c]" "2 \<le> c"
    using assms no_points_shape by blast
  then have "column full_cloud 0 = Inr []" "column full_cloud (Suc 0) = Inr []"
    by (simp_all add: column_def)
  then show ?thesis
    by (simp add: region_of_interest_def np_amin_def)
qed

subsection \<open>The one-point cloud read from a file\<close>

lemma ceiling_half: "\<lceil>1 / 2 :: real\<rceil> = 1"
  by (rule ceiling_unique) simp_all

lemma single_point_roi:
  "region_of_interest (point_table 3 [[1/2, 1/2, 10]]) (Fin 1) None = Inr (Fin 0, Fin 1, 1, 2)"
  by (simp add: region_of_interest_def column_def point_table_def np_amin_def np_amax_def
        fsub_def rounding ceiling_half)

lemma single_point_file:
  "plyflatten_from_plyfiles_list table_files overwriting_routine [single_point] (Fin 1) 0
       None None False
     = Inr (\<lparr>dtype = Float32, shape = [2, 1, 1], data = [Fin 1, Fin 1]\<rparr>,
            \<lparr>tiled = True, compress = ''deflate'', predictor = 2, nodata = NaN, crs = (),
             transform = Affine (Fin 1) (Fin 0) (Fin 0) (Fin 0) (Fin (- 1)) (Fin 1)\<rparr>)"
proof -
  have cat: "np_concatenate [astype single_point Float64] = Inr (point_table 3 [[1/2, 1/2, 10]])"
    by (simp add: np_concatenate_def astype_def single_point_def point_table_def)
  have raster: "fst (plyflatten overwriting_routine [point_table 3 [[1/2, 1/2, 10]]] 0
                  (Fin 0) (Fin 1) (Fin 1) 1 2 0 PInf False)
        = Inr \<lparr>dtype = Float32, shape = [2, 1, 1], data = [Fin 1, Fin 1]\<rparr>"
    by (simp add: plyflatten_def point_table_def np_zeros_def intp_max_def alloc_def astype_def
          Let_def reshape_def nth_append lib_rasterize_cloud_def write_buffer_def
          store_into_def overwriting_routine_def numeral_2_eq_2)
  show ?thesis
    by (simp add: plyflatten_from_plyfiles_list_def table_files_def cat single_point_roi raster
          first_item_def)
qed

section \<open>The claims\<close>

subsection \<open>Shape of the result\<close>

text \<open>
  Claim C1: for a valid cloud the mean raster has shape \<open>(ysize, xsize, k)\<close>, and with
  \<^verbatim>\<open>std=True\<close> the call returns an array of shape \<open>(ysize, xsize, 2 * k)\<close> that
  pairs it with the standard-deviation raster, as the docstring of \<^verbatim>\<open>plyflatten\<close> says
  too. The code does not return with \<^verbatim>\<open>std=True\<close>: on the one-point cloud of the
  specification's first scenario, with a one-cell grid, line 83 raises
  \<^verbatim>\<open>AttributeError\<close>, whatever the native routine has written.
\<close>

theorem plyflatten_std_raises:
  "fst (plyflatten lib [single_point] 0 (Fin 0) (Fin 1) (Fin 1) 1 1 0 PInf True) = Inl AttributeError"
  by (simp add: plyflatten_def single_point_def point_table_def np_zeros_def intp_max_def
        alloc_def astype_def Let_def reshape_def ndarray_dstack_def nth_append)

subsection \<open>The derived region of interest\<close>




text \<open>
  Claim C3: for a cloud of at least one point and a resolution above zero, the derived
  region of interest covers every point: the cell of each point lies in
  \<open>[0, xsize) \<times> [0, ysize)\<close>. The code does not achieve it: for the cloud
  \<^verbatim>\<open>[[1.7, 0.0, 10.0]]\<close> at the resolution \<^verbatim>\<open>0.1\<close> the offset derived lies to the
  right of the point, whose column is \<open>-1\<close>, and the grid has no column at all.
\<close>

theorem derived_roi_misses_point:
  "region_of_interest (point_table 3 [[double (17 / 10), 0, 10]]) (Fin (double (1 / 10))) None
     = Inr (Fin (7656119366529844 / 4503599627370496), Fin 0, 0, 1)
   \<and> cell_of (Fin (7656119366529844 / 4503599627370496)) (Fin 0) (Fin (double (1 / 10)))
         [double (17 / 10), 0, 10] = (Fin (- 1), Fin 0)
   \<and> \<not> in_grid 0 1 (Fin (- 1), Fin 0)"
proof -
  have "cell_of (Fin (7656119366529844 / 4503599627370496)) (Fin 0) (Fin (double (1 / 10)))
         [double (17 / 10), 0, 10] = (Fin (- 1), Fin 0)"
    unfolding tenth seventeen_tenths
    by (simp add: cell_of_def fsub_def rounding)
  then show ?thesis
    using overtaken_roi by simp
qed

text \<open>
  Claim C7: for a cloud of at least one point and a resolution above zero, the derived
  region of interest has positive \<open>xsize\<close> and \<open>ysize\<close>, and \<open>xoff\<close> and \<open>yoff\<close> are
  integer multiples of the resolution. The code does not achieve it: for the cloud
  \<^verbatim>\<open>[[1.7, 0.0, 10.0]]\<close> at the resolution \<^verbatim>\<open>0.1\<close> it derives an \<open>xsize\<close> of zero.
\<close>

theorem derived_roi_empty_grid:
  "region_of_interest (point_table 3 [[double (17 / 10), 0, 10]]) (Fin (double (1 / 10))) None
     = Inr (Fin (7656119366529844 / 4503599627370496), Fin 0, 0, 1)"
  by (rule overtaken_roi)

subsection \<open>Errors\<close>

text \<open>
  Claim C4, as amended: when no region of interest is given and the input has no point
  (every file holds a two-dimensional table without rows and with at least two columns,
  or there is no file at all), \<^verbatim>\<open>plyflatten_from_plyfiles_list\<close> fails with numpy's
  \<^verbatim>\<open>ValueError\<close> before the rasterizer is called, so without any output. The
  claim names the exception \<^verbatim>\<open>EmptyInputError\<close>, which the code does not have.
\<close>

theorem zero_points_raise_ValueError:
  assumes "list_all (\<lambda>f. case read_3d_point_cloud_from_ply u f of
                            Inl e \<Rightarrow> False | Inr a \<Rightarrow> no_points a) clouds_list"
  shows "plyflatten_from_plyfiles_list u lib clouds_list resolution radius None sigma std
           = Inl ValueError"
proof -
  obtain clouds where r: "read_clouds u clouds_list = Inr clouds" "list_all no_points clouds"
    using read_clouds_no_points [OF assms] by blast
  show ?thesis
  proof (cases "np_concatenate clouds")
    case (Inl e)
    then have "e = ValueError"
      by (auto simp: np_concatenate_def split: list.splits if_splits)
    with Inl r show ?thesis
      by (simp add: plyflatten_from_plyfiles_list_def)
  next
    case (Inr full_cloud)
    then have "region_of_interest full_cloud resolution None = Inl ValueError"
      using r(2) by (intro region_of_interest_no_points np_concatenate_no_points)
    with Inr r show ?thesis
      by (simp add: plyflatten_from_plyfiles_list_def)
  qed
qed

theorem zero_points_raise_ValueError_witness:
  "plyflatten_from_plyfiles_list table_files overwriting_routine
     [point_table 3 [], point_table 4 []] (Fin 1) 0 None None False = Inl ValueError
   \<and> plyflatten_from_plyfiles_list table_files overwriting_routine
     ([] :: ndarray list) (Fin 1) 0 None None False = Inl ValueError"
  using zero_points_raise_ValueError
          [of table_files "[point_table 3 [], point_table 4 []]" overwriting_routine "Fin 1" 0 None False]
        zero_points_raise_ValueError
          [of table_files "[]" overwriting_routine "Fin 1" 0 None False]
  by (simp add: table_files_def point_table_def no_points_def)

text \<open>
  On one file without points the exception is \<^verbatim>\<open>ValueError\<close>, raised by \<^verbatim>\<open>np.amin\<close>
  on the empty column.
\<close>

theorem zero_points_no_EmptyInputError:
  "plyflatten_from_plyfiles_list table_files overwriting_routine
     [point_table 3 []] (Fin 1) 0 None None False = Inl ValueError"
  by (simp add: plyflatten_from_plyfiles_list_def table_files_def point_table_def astype_def
        np_concatenate_def region_of_interest_def column_def np_amin_def)




text \<open>
  Claim C6, as amended: when the table has fewer than two columns, or when the product
  of \<open>xsize\<close> and \<open>ysize\<close> is negative, \<^verbatim>\<open>plyflatten\<close> fails with numpy's
  \<^verbatim>\<open>ValueError\<close> at the allocation of the raster, before the native routine is
  called and with the store as it was. The claim names the exception
  \<^verbatim>\<open>InvalidShapeError\<close>, which the code does not have, and has every \<open>xsize\<close> or
  \<open>ysize\<close> that is not positive rejected.
\<close>

theorem plyflatten_negative_dimension:
  assumes "cloud < length h" and "2 \<le> length (shape (h ! cloud))"
    and "shape (h ! cloud) ! 1 < 2 \<or> xsize * ysize < 0"
  shows "plyflatten lib h cloud xoff yoff resolution xsize ysize radius sigma std
           = (Inl ValueError, h)"
  using assms(2-) by (auto simp: plyflatten_def Let_def np_zeros_def)

theorem plyflatten_negative_dimension_witness:
  "plyflatten overwriting_routine [point_table 1 [[1/2]]] 0 (Fin 0) (Fin 1) (Fin 1) 1 1 0 PInf False
     = (Inl ValueError, [point_table 1 [[1/2]]])
   \<and> plyflatten overwriting_routine [single_point] 0 (Fin 0) (Fin 1) (Fin 1) (-1) 1 0 PInf False
     = (Inl ValueError, [single_point])"
  using plyflatten_negative_dimension
          [of 0 "[point_table 1 [[1/2]]]" 1 1 overwriting_routine "Fin 0" "Fin 1" "Fin 1" 0 PInf False]
        plyflatten_negative_dimension
          [of 0 "[single_point]" "-1" 1 overwriting_routine "Fin 0" "Fin 1" "Fin 1" 0 PInf False]
  by (simp add: single_point_def point_table_def)

text \<open>
  A table of one column is refused with \<^verbatim>\<open>ValueError\<close>, and an \<open>xsize\<close> of zero is
  not refused at all: the call returns a raster without cells.
\<close>

theorem invalid_shapes_not_reported:
  "fst (plyflatten overwriting_routine [point_table 1 [[1/2]]] 0 (Fin 0) (Fin 1) (Fin 1) 1 1 0 PInf False)
     = Inl ValueError
   \<and> fst (plyflatten overwriting_routine [single_point] 0 (Fin 0) (Fin 1) (Fin 1) 0 1 0 PInf False)
     = Inr \<lparr>dtype = Float32, shape = [1, 0, 1], data = []\<rparr>"
  by (simp add: plyflatten_def single_point_def point_table_def np_zeros_def intp_max_def alloc_def
        astype_def Let_def reshape_def nth_append lib_rasterize_cloud_def write_buffer_def
        store_into_def overwriting_routine_def)

subsection \<open>The profile\<close>

text \<open>
  Claim C8: when \<^verbatim>\<open>plyflatten_from_plyfiles_list\<close> returns, the profile holds the
  affine transform \<open>(resolution, 0, xoff, 0, -resolution, yoff)\<close>, with the offsets of
  the region of interest that was given or derived, and the no-data value not-a-number.
\<close>

theorem profile_transform_nodata:
  assumes "plyflatten_from_plyfiles_list u lib clouds_list resolution radius roi sigma std
             = Inr (raster, prof)"
  shows "nodata prof = NaN \<and>
         (\<exists>clouds full_cloud xoff yoff xsize ysize.
            read_clouds u clouds_list = Inr clouds \<and> np_concatenate clouds = Inr full_cloud
          \<and> region_of_interest full_cloud resolution roi = Inr (xoff, yoff, xsize, ysize)
          \<and> transform prof = Affine resolution (Fin 0) xoff (Fin 0) (fneg resolution) yoff)"
  using assms
  by (auto simp: plyflatten_from_plyfiles_list_def and_then_def Let_def
           split: sum.splits prod.splits)

theorem profile_transform_nodata_witness:
  "nodata \<lparr>tiled = True, compress = ''deflate'', predictor = 2, nodata = NaN, crs = (),
             transform = Affine (Fin 1) (Fin 0) (Fin 0) (Fin 0) (Fin (- 1)) (Fin 1)\<rparr> = NaN \<and>
   (\<exists>clouds full_cloud xoff yoff xsize ysize.
      read_clouds table_files [single_point] = Inr clouds \<and> np_concatenate clouds = Inr full_cloud
    \<and> region_of_interest full_cloud (Fin 1) None = Inr (xoff, yoff, xsize, ysize)
    \<and> transform \<lparr>tiled = True, compress = ''deflate'', predictor = 2, nodata = NaN, crs = (),
             transform = Affine (Fin 1) (Fin 0) (Fin 0) (Fin 0) (Fin (- 1)) (Fin 1)\<rparr>
        = Affine (Fin 1) (Fin 0) xoff (Fin 0) (fneg (Fin 1)) yoff)"
  using profile_transform_nodata [OF single_point_file] .

subsection \<open>Effects and element type\<close>

text \<open>
  Claim C9: the caller's point cloud is the same after a call of \<^verbatim>\<open>plyflatten\<close> as
  before it, whatever the native routine writes into the buffers it is given and
  whether the call returns or raises.
\<close>

theorem plyflatten_leaves_cloud_unchanged:
  assumes "cloud < length h"
  shows "snd (plyflatten lib h cloud xoff yoff resolution xsize ysize radius sigma std) ! cloud
           = h ! cloud"
  using assms by (rule plyflatten_frame)

theorem plyflatten_leaves_cloud_unchanged_witness:
  "snd (plyflatten overwriting_routine [single_point] 0 (Fin 0) (Fin 1) (Fin 1) 1 1 0 PInf False) ! 0
     = single_point"
  using plyflatten_leaves_cloud_unchanged
          [of 0 "[single_point]" overwriting_routine "Fin 0" "Fin 1" "Fin 1" 1 1 0 PInf False]
  by simp

text \<open>
  Claim C10: every raster that \<^verbatim>\<open>plyflatten\<close> returns has element type float32,
  though the point table handed to the native routine is float64.
\<close>

theorem plyflatten_raster_float32:
  assumes "fst (plyflatten lib h cloud xoff yoff resolution xsize ysize radius sigma std) = Inr r"
  shows "dtype r = Float32"
proof (cases "length (shape (h ! cloud)) < 2")
  case True
  with assms show ?thesis by (simp add: plyflatten_def)
next
  case False
  show ?thesis
  proof (cases "np_zeros [xsize * ysize, int (shape (h ! cloud) ! 1) - 2] Float32")
    case (Inl e)
    with False assms show ?thesis by (simp add: plyflatten_def Let_def)
  next
    case (Inr zeros)
    then have z: "dtype zeros = Float32"
      by (auto simp: np_zeros_def split: if_splits)
    from False Inr assms show ?thesis
      by (auto simp: plyflatten_def Let_def alloc_def ndarray_dstack_def nth_append z
               split: sum.splits if_splits dest!: reshape_dtype)
  qed
qed

theorem plyflatten_raster_float32_witness:
  "fst (plyflatten overwriting_routine [single_point] 0 (Fin 0) (Fin 1) (Fin 1) 1 1 0 PInf False)
     = Inr \<lparr>dtype = Float32, shape = [1, 1, 1], data = [Fin 1]\<rparr>
   \<and> dtype \<lparr>dtype = Float32, shape = [1, 1, 1], data = [Fin 1]\<rparr> = Float32"
  using plyflatten_raster_float32 [OF single_point_raster] single_point_raster by simp

end
